theory Spec2Isabelle
  imports Main "HOL-Library.Word"
begin

section \<open>The miner actor of go-filecoin (actor/builtin/miner/miner.go)\<close>

text \<open>
  A shallow embedding of the miner actor. Every exported method is a function of the
  VM context, the actor state found in storage and the method's arguments; it returns
  the Go return values, the state found in storage afterwards, and the cross-actor
  messages sent during the call. Go's \<open>nil\<close> error is \<open>None\<close>.
\<close>

subsection \<open>Value types\<close>

type_synonym byte = "8 word"
type_synonym Address = string
type_synonym PeerID = string

text \<open>\<open>types.AttoFIL\<close> and \<open>*big.Int\<close>: arbitrary-precision integers.\<close>

type_synonym AttoFIL = int

text \<open>
  Modelled from the spec: \<open>types.BlockHeight\<close> (its declaration is not among the
  sources) is "a monotonically increasing unsigned integer, chain time". It is a
  natural number here, with no upper bound.
\<close>

type_synonym BlockHeight = nat

text \<open>Modelled from the spec: \<open>types.NewBlockHeight\<close> makes a height of a \<open>uint64\<close>.\<close>

definition NewBlockHeight :: "64 word \<Rightarrow> BlockHeight" where
  "NewBlockHeight x = unat x"

text \<open>Modelled from the spec: \<open>BlockHeight.Add\<close> is the sum of two heights
  ("expiry = current_height + expiry_delta", "deadline = proving_period_start +
  PROVING_PERIOD_BLOCKS").\<close>

definition Add :: "BlockHeight \<Rightarrow> BlockHeight \<Rightarrow> BlockHeight" where
  "Add z y = z + y"

text \<open>Modelled from the spec: \<open>BlockHeight.LessThan\<close> is the strict order of heights
  ("retain only asks whose expiry > current_height").\<close>

definition LessThan :: "BlockHeight \<Rightarrow> BlockHeight \<Rightarrow> bool" where
  "LessThan z y = (z < y)"

text \<open>Modelled from the spec: \<open>BlockHeight.LessEqual\<close> is the order of heights
  ("if current_height \<le> deadline: accept").\<close>

definition LessEqual :: "BlockHeight \<Rightarrow> BlockHeight \<Rightarrow> bool" where
  "LessEqual z y = (z \<le> y)"

text \<open>\<open>big.Int.IsUint64\<close> and \<open>big.Int.Uint64\<close> of the Go library.\<close>

definition IsUint64 :: "int \<Rightarrow> bool" where
  "IsUint64 x = (0 \<le> x \<and> x < 2 ^ 64)"

definition Uint64 :: "int \<Rightarrow> 64 word" where
  "Uint64 x = word_of_int x"

text \<open>
  \<open>strconv.FormatUint(sectorID, 10)\<close>: the decimal digits of the number, most
  significant first.
\<close>

definition digit :: "nat \<Rightarrow> char" where
  "digit d = ''0123456789'' ! d"

function decimal :: "nat \<Rightarrow> string" where
  "decimal n = (if n < 10 then [digit n] else decimal (n div 10) @ [digit (n mod 10)])"
  by pat_completeness auto
termination
  by (relation "measure id") auto

declare decimal.simps [simp del]

definition FormatUint :: "64 word \<Rightarrow> string" where
  "FormatUint sectorID = decimal (unat sectorID)"

text \<open>Go's builtin \<open>copy(dst, src)\<close>: the first \<open>min (len dst) (len src)\<close> bytes of
  \<open>dst\<close> are overwritten.\<close>

definition copy :: "'a list \<Rightarrow> 'a list \<Rightarrow> 'a list" where
  "copy dst src = take (length dst) src @ drop (length src) dst"

subsection \<open>Constants and the error table\<close>

definition MaximumPublicKeySize :: nat where
  "MaximumPublicKeySize = 100"

definition PoStProofLength :: nat where
  "PoStProofLength = 192"

definition ProvingPeriodBlocks :: BlockHeight where
  "ProvingPeriodBlocks = NewBlockHeight 20000"

text \<open>
  Modelled from the spec: \<open>proofs.CommitmentBytesLen\<close> (declared outside the sources) is
  the spec's \<open>COMMITMENT_LENGTH\<close>, 32 bytes.
\<close>

definition CommitmentBytesLen :: nat where
  "CommitmentBytesLen = 32"

definition ErrPublicKeyTooBig :: "8 word" where "ErrPublicKeyTooBig = 33"
definition ErrInvalidSector :: "8 word" where "ErrInvalidSector = 34"
definition ErrSectorCommitted :: "8 word" where "ErrSectorCommitted = 35"
definition ErrStoragemarketCallFailed :: "8 word" where "ErrStoragemarketCallFailed = 36"
definition ErrCallerUnauthorized :: "8 word" where "ErrCallerUnauthorized = 37"
definition ErrInsufficientPledge :: "8 word" where "ErrInsufficientPledge = 38"
definition ErrInvalidPoSt :: "8 word" where "ErrInvalidPoSt = 39"

text \<open>
  Modelled from the spec: the package \<open>vm/errors\<close> is not among the sources. The spec
  (section 7) has revert errors, each with "a small integer code returned as the method
  exit code", the generic revert with code 1, and fault errors. \<open>OtherError\<close> stands
  for an error value of another package (the gas meter, the verifier, the serializer).
\<close>

datatype Error =
    RevertError string
  | CodedRevertError "8 word" string
  | RevertErrorWrap Error string
  | FaultError string
  | OtherError string

text \<open>
  Modelled from the spec: \<open>errors.CodeError\<close> gives the code of a coded revert error
  and the generic code 1 for every other error.
\<close>

fun CodeError :: "Error \<Rightarrow> 8 word" where
  "CodeError (CodedRevertError c msg) = c"
| "CodeError e = 1"

definition Errors :: "8 word \<Rightarrow> Error option" where
  "Errors = map_of
    [(ErrPublicKeyTooBig, CodedRevertError ErrPublicKeyTooBig ''public key must be less than 100 bytes''),
     (ErrInvalidSector, CodedRevertError ErrInvalidSector ''sectorID out of range''),
     (ErrSectorCommitted, CodedRevertError ErrSectorCommitted ''sector already committed''),
     (ErrStoragemarketCallFailed, CodedRevertError ErrStoragemarketCallFailed ''call to StorageMarket failed''),
     (ErrCallerUnauthorized, CodedRevertError ErrCallerUnauthorized ''not authorized to call the method''),
     (ErrInsufficientPledge, CodedRevertError ErrInsufficientPledge ''not enough pledged''),
     (ErrInvalidPoSt, CodedRevertError ErrInvalidPoSt ''PoSt proof did not validate'')]"

subsection \<open>The actor's storage\<close>

record Ask =
  Price :: AttoFIL
  Expiry :: BlockHeight
  ID :: int

record Commitments =
  CommD :: "byte list"
  CommR :: "byte list"
  CommRStar :: "byte list"

text \<open>
  \<open>ProvingPeriodStart\<close> and \<open>LastPoSt\<close> are pointers that \<open>NewState\<close> leaves nil;
  the other pointer fields are set by \<open>NewState\<close> and are plain values here.
\<close>

record State =
  Owner :: Address
  PeerID :: PeerID
  PublicKey :: "byte list"
  PledgeSectors :: int
  Collateral :: AttoFIL
  Asks :: "Ask list"
  NextAskID :: int
  SectorCommitments :: "string \<rightharpoonup> Commitments"
  LastUsedSectorID :: "64 word"
  ProvingPeriodStart :: "BlockHeight option"
  LastPoSt :: "BlockHeight option"
  Power :: int

definition NewState :: "Address \<Rightarrow> byte list \<Rightarrow> int \<Rightarrow> PeerID \<Rightarrow> AttoFIL \<Rightarrow> State" where
  "NewState owner key pledge pid collateral =
     \<lparr>Owner = owner, PeerID = pid, PublicKey = key, PledgeSectors = pledge,
      Collateral = collateral, Asks = [], NextAskID = 0, SectorCommitments = Map.empty,
      LastUsedSectorID = 0, ProvingPeriodStart = None, LastPoSt = None, Power = 0\<rparr>"

subsection \<open>The VM context and the collaborators outside the actor\<close>

text \<open>A message handed to \<open>ctx.Send\<close>: target, method, value and parameters.\<close>

record SentMessage =
  To :: Address
  Method :: string
  Value :: "AttoFIL option"
  Params :: "int list"

text \<open>
  \<open>exec.VMContext\<close> is an interface of the VM. The context of one call is given by
  the sender of the message, the chain height, what the gas meter answers to
  \<open>Charge\<close> and what a \<open>Send\<close> returns (return values, exit code, error).
\<close>

record VMContext =
  From :: Address
  BlockHeight :: BlockHeight
  Charge :: "nat \<Rightarrow> Error option"
  Send :: "SentMessage \<Rightarrow> byte list list \<times> 8 word \<times> Error option"

record VerifyPoSTRequest =
  ChallengeSeed :: "byte list"
  CommRs :: "byte list list"
  Faults :: "64 word list"
  Proof :: "byte list"

text \<open>
  What the actor uses from outside its own file and the VM context, taken as
  parameters: the VM's exit code for insufficient gas, the address of the storage
  market, the length of a challenge seed, the PoSt verifier (validity and error), the
  order in which Go's \<open>range\<close> visits the values of the commitments map, and the
  serializer \<open>cbor.DumpObject\<close> on an ask pointer (\<open>None\<close> is the nil pointer).
\<close>

record Env =
  ErrInsufficientGas :: "8 word"
  StorageMarketAddress :: Address
  PoStChallengeSeedLen :: nat
  VerifyPoST :: "VerifyPoSTRequest \<Rightarrow> bool \<times> Error option"
  RangeValues :: "(string \<rightharpoonup> Commitments) \<Rightarrow> Commitments list"
  DumpObject :: "Ask option \<Rightarrow> byte list \<times> Error option"

text \<open>
  Modelled from the spec: \<open>actor.WithState\<close> is not among the sources. By section
  4.1 a method loads the state, runs a callback on it, and commits the updated state
  atomically: "either the full mutation is persisted or none of it is". The callback
  gives its return value, its error, the state as the callback left it and the
  messages it sent; when the error is not nil the state in storage stays as it was.
\<close>

definition WithState ::
  "State \<Rightarrow> (State \<Rightarrow> 'a option \<times> Error option \<times> State \<times> SentMessage list)
    \<Rightarrow> 'a option \<times> Error option \<times> State \<times> SentMessage list" where
  "WithState st f =
     (case f st of (ret, err, st', msgs) \<Rightarrow>
        (case err of
           Some e \<Rightarrow> (None, Some e, st, msgs)
         | None \<Rightarrow> (ret, None, st', msgs)))"

subsection \<open>AddAsk\<close>

text \<open>
  The loop that filters out expired asks: \<open>acc\<close> is \<open>state.Asks\<close> as rebuilt so
  far, the list argument is what is left of the old slice.
\<close>

fun filterAsks :: "BlockHeight \<Rightarrow> Ask list \<Rightarrow> Ask list \<Rightarrow> Ask list" where
  "filterAsks h [] acc = acc"
| "filterAsks h (a # asks) acc =
     filterAsks h asks (if LessThan h (Expiry a) then acc @ [a] else acc)"

definition AddAsk_callback ::
  "VMContext \<Rightarrow> AttoFIL \<Rightarrow> int \<Rightarrow> State
    \<Rightarrow> int option \<times> Error option \<times> State \<times> SentMessage list" where
  "AddAsk_callback ctx price expiry state =
     (if From ctx \<noteq> Owner state then (None, Errors ErrCallerUnauthorized, state, [])
      else
        let id = NextAskID state;
            state1 = state\<lparr>NextAskID := NextAskID state + 1\<rparr>;
            asks = Asks state1;
            state2 = state1\<lparr>Asks := filterAsks (BlockHeight ctx) asks []\<rparr>
        in if \<not> IsUint64 expiry then (None, Some (RevertError ''expiry was invalid''), state2, [])
           else
             let expiryBH = NewBlockHeight (Uint64 expiry);
                 state3 = state2\<lparr>Asks := Asks state2 @
                   [\<lparr>Price = price, Expiry = Add (BlockHeight ctx) expiryBH, ID = id\<rparr>]\<rparr>
             in (Some id, None, state3, []))"

definition AddAsk ::
  "Env \<Rightarrow> VMContext \<Rightarrow> State \<Rightarrow> AttoFIL \<Rightarrow> int
    \<Rightarrow> (int option \<times> 8 word \<times> Error option) \<times> State \<times> SentMessage list" where
  "AddAsk env ctx st price expiry =
     (case Charge ctx 100 of
        Some err \<Rightarrow>
          ((None, ErrInsufficientGas env, Some (RevertErrorWrap err ''Insufficient gas'')), st, [])
      | None \<Rightarrow>
          (case WithState st (AddAsk_callback ctx price expiry) of
             (out, Some err, st', msgs) \<Rightarrow> ((None, CodeError err, Some err), st', msgs)
           | (None, None, st', msgs) \<Rightarrow>
               ((None, 1, Some (RevertError
                  ''expected an Integer return value from call, but got <nil> instead'')), st', msgs)
           | (Some askID, None, st', msgs) \<Rightarrow> ((Some askID, 0, None), st', msgs)))"

subsection \<open>GetAsk\<close>

text \<open>The search loop: the first ask whose ID compares equal, nil when there is none.\<close>

fun findAsk :: "int \<Rightarrow> Ask list \<Rightarrow> Ask option" where
  "findAsk askid [] = None"
| "findAsk askid (a # asks) = (if ID a = askid then Some a else findAsk askid asks)"

definition GetAsk_callback ::
  "Env \<Rightarrow> int \<Rightarrow> State \<Rightarrow> byte list option \<times> Error option \<times> State \<times> SentMessage list" where
  "GetAsk_callback env askid state =
     (let ask = findAsk askid (Asks state) in
      case DumpObject env ask of
        (out, Some err) \<Rightarrow> (None, Some err, state, [])
      | (out, None) \<Rightarrow> (Some out, None, state, []))"

definition GetAsk ::
  "Env \<Rightarrow> VMContext \<Rightarrow> State \<Rightarrow> int
    \<Rightarrow> (byte list option \<times> 8 word \<times> Error option) \<times> State \<times> SentMessage list" where
  "GetAsk env ctx st askid =
     (case Charge ctx 100 of
        Some err \<Rightarrow>
          ((None, ErrInsufficientGas env, Some (RevertErrorWrap err ''Insufficient gas'')), st, [])
      | None \<Rightarrow>
          (case WithState st (GetAsk_callback env askid) of
             (out, Some err, st', msgs) \<Rightarrow> ((None, CodeError err, Some err), st', msgs)
           | (None, None, st', msgs) \<Rightarrow>
               ((None, 1, Some (RevertError
                  ''expected a Bytes return value from call, but got <nil> instead'')), st', msgs)
           | (Some ask, None, st', msgs) \<Rightarrow> ((Some ask, 0, None), st', msgs)))"

subsection \<open>CommitSector\<close>

definition CommitSector_callback ::
  "Env \<Rightarrow> VMContext \<Rightarrow> 64 word \<Rightarrow> string \<Rightarrow> byte list \<Rightarrow> byte list \<Rightarrow> byte list \<Rightarrow> State
    \<Rightarrow> unit option \<times> Error option \<times> State \<times> SentMessage list" where
  "CommitSector_callback env ctx sectorID sectorIDstr commD commR commRStar state =
     (if From ctx \<noteq> Owner state then (None, Errors ErrCallerUnauthorized, state, [])
      else if SectorCommitments state sectorIDstr \<noteq> None
      then (None, Errors ErrSectorCommitted, state, [])
      else
        let state1 = (if Power state = 0
                      then state\<lparr>ProvingPeriodStart := Some (BlockHeight ctx)\<rparr> else state);
            inc = 1;
            state2 = state1\<lparr>Power := Power state1 + inc\<rparr>;
            comms = \<lparr>CommD = copy (replicate CommitmentBytesLen 0) commD,
                     CommR = copy (replicate CommitmentBytesLen 0) commR,
                     CommRStar = copy (replicate CommitmentBytesLen 0) commRStar\<rparr>;
            state3 = state2\<lparr>LastUsedSectorID := sectorID\<rparr>;
            state4 = state3\<lparr>SectorCommitments := (SectorCommitments state3)(sectorIDstr \<mapsto> comms)\<rparr>;
            msg = \<lparr>To = StorageMarketAddress env, Method = ''updatePower'', Value = None,
                   Params = [inc]\<rparr>
        in case Send ctx msg of
             (out, ret, Some err) \<Rightarrow> (None, Some err, state4, [msg])
           | (out, ret, None) \<Rightarrow>
               if ret \<noteq> 0 then (None, Errors ErrStoragemarketCallFailed, state4, [msg])
               else (None, None, state4, [msg]))"

definition CommitSector ::
  "Env \<Rightarrow> VMContext \<Rightarrow> State \<Rightarrow> 64 word \<Rightarrow> byte list \<Rightarrow> byte list \<Rightarrow> byte list \<Rightarrow> byte list
    \<Rightarrow> (8 word \<times> Error option) \<times> State \<times> SentMessage list" where
  "CommitSector env ctx st sectorID commD commR commRStar proof =
     (case Charge ctx 100 of
        Some err \<Rightarrow>
          ((ErrInsufficientGas env, Some (RevertErrorWrap err ''Insufficient gas'')), st, [])
      | None \<Rightarrow>
          if length commD \<noteq> CommitmentBytesLen
          then ((0, Some (RevertError ''invalid sized commD'')), st, [])
          else if length commR \<noteq> CommitmentBytesLen
          then ((0, Some (RevertError ''invalid sized commR'')), st, [])
          else if length commRStar \<noteq> CommitmentBytesLen
          then ((0, Some (RevertError ''invalid sized commRStar'')), st, [])
          else
            (let sectorIDstr = FormatUint sectorID in
             (case WithState st
                    (CommitSector_callback env ctx sectorID sectorIDstr commD commR commRStar) of
                (out, Some err, st', msgs) \<Rightarrow> ((CodeError err, Some err), st', msgs)
              | (out, None, st', msgs) \<Rightarrow> ((0, None), st', msgs))))"

subsection \<open>UpdatePeerID\<close>

definition UpdatePeerID_callback ::
  "VMContext \<Rightarrow> PeerID \<Rightarrow> State \<Rightarrow> unit option \<times> Error option \<times> State \<times> SentMessage list" where
  "UpdatePeerID_callback ctx pid storage =
     (if From ctx \<noteq> Owner storage then (None, Errors ErrCallerUnauthorized, storage, [])
      else (None, None, storage\<lparr>PeerID := pid\<rparr>, []))"

definition UpdatePeerID ::
  "Env \<Rightarrow> VMContext \<Rightarrow> State \<Rightarrow> PeerID
    \<Rightarrow> (8 word \<times> Error option) \<times> State \<times> SentMessage list" where
  "UpdatePeerID env ctx st pid =
     (case Charge ctx 100 of
        Some err \<Rightarrow>
          ((ErrInsufficientGas env, Some (RevertErrorWrap err ''Insufficient gas'')), st, [])
      | None \<Rightarrow>
          (case WithState st (UpdatePeerID_callback ctx pid) of
             (out, Some err, st', msgs) \<Rightarrow> ((CodeError err, Some err), st', msgs)
           | (out, None, st', msgs) \<Rightarrow> ((0, None), st', msgs)))"

subsection \<open>SubmitPoSt\<close>

text \<open>
  The request handed to the verifier: the \<open>CommR\<close> of every committed sector in the
  order of the map iteration, the proof copied into a \<open>PoStProof\<close> array, a zero
  challenge seed and no faults. Then the callback of \<open>SubmitPoSt\<close>. \<open>state.ProvingPeriodStart.Add\<close> dereferences the
  pointer: on a state whose \<open>ProvingPeriodStart\<close> is nil the call panics and nothing
  is returned, which is the result \<open>None\<close>.
\<close>

definition PoStRequest :: "Env \<Rightarrow> State \<Rightarrow> byte list \<Rightarrow> VerifyPoSTRequest" where
  "PoStRequest env state proof =
     (let commRs = map CommR (RangeValues env (SectorCommitments state));
          postProof = copy (replicate PoStProofLength 0) proof
      in \<lparr>ChallengeSeed = replicate (PoStChallengeSeedLen env) 0, CommRs = commRs,
          Faults = [], Proof = postProof\<rparr>)"

definition SubmitPoSt_callback ::
  "Env \<Rightarrow> VMContext \<Rightarrow> byte list \<Rightarrow> State
    \<Rightarrow> (unit option \<times> Error option \<times> State \<times> SentMessage list) option" where
  "SubmitPoSt_callback env ctx proof state =
     (if From ctx \<noteq> Owner state then Some (None, Errors ErrCallerUnauthorized, state, [])
      else
        let req = PoStRequest env state proof
        in case VerifyPoST env req of
             (isValid, Some err) \<Rightarrow>
               Some (None, Some (RevertErrorWrap err ''failed to verify PoSt''), state, [])
           | (isValid, None) \<Rightarrow>
               if \<not> isValid then Some (None, Errors ErrInvalidPoSt, state, [])
               else
                 (case ProvingPeriodStart state of
                    None \<Rightarrow> None
                  | Some start \<Rightarrow>
                      let provingPeriodEnd = Add start ProvingPeriodBlocks in
                      if LessEqual (BlockHeight ctx) provingPeriodEnd
                      then Some (None, None,
                             state\<lparr>ProvingPeriodStart := Some provingPeriodEnd,
                                   LastPoSt := Some (BlockHeight ctx)\<rparr>, [])
                      else Some (None,
                             Some (RevertError ''submitted PoSt late, need to pay a fee''),
                             state, [])))"

definition SubmitPoSt ::
  "Env \<Rightarrow> VMContext \<Rightarrow> State \<Rightarrow> byte list
    \<Rightarrow> ((8 word \<times> Error option) \<times> State \<times> SentMessage list) option" where
  "SubmitPoSt env ctx st proof =
     (case Charge ctx 100 of
        Some err \<Rightarrow>
          Some ((ErrInsufficientGas env, Some (RevertErrorWrap err ''Insufficient gas'')), st, [])
      | None \<Rightarrow>
          if length proof \<noteq> PoStProofLength
          then Some ((0, Some (RevertError ''invalid sized proof'')), st, [])
          else
            (case SubmitPoSt_callback env ctx proof st of
               None \<Rightarrow> None
             | Some r \<Rightarrow>
                 (case WithState st (\<lambda>state. r) of
                    (out, Some err, st', msgs) \<Rightarrow> Some ((CodeError err, Some err), st', msgs)
                  | (out, None, st', msgs) \<Rightarrow> Some ((0, None), st', msgs))))"

subsection \<open>Sequences of calls\<close>

text \<open>
  A sequence of \<open>commitSector\<close> calls, each with its own context and arguments, run
  one after the other on the state the previous call left. The result is \<open>None\<close> as
  soon as one call of the sequence returns an error.
\<close>

type_synonym CommitCall = "VMContext \<times> 64 word \<times> byte list \<times> byte list \<times> byte list \<times> byte list"

fun commitAll :: "Env \<Rightarrow> State \<Rightarrow> CommitCall list \<Rightarrow> State option" where
  "commitAll env st [] = Some st"
| "commitAll env st ((ctx, sectorID, commD, commR, commRStar, proof) # calls) =
     (case CommitSector env ctx st sectorID commD commR commRStar proof of
        ((code, None), st', msgs) \<Rightarrow> commitAll env st' calls
      | ((code, Some err), st', msgs) \<Rightarrow> None)"

text \<open>
  A sequence of \<open>addAsk\<close> calls: the ids returned, in call order, and the final state;
  \<open>None\<close> as soon as one call returns an error.
\<close>

type_synonym AskCall = "VMContext \<times> AttoFIL \<times> int"

fun addAsks :: "Env \<Rightarrow> State \<Rightarrow> AskCall list \<Rightarrow> (int list \<times> State) option" where
  "addAsks env st [] = Some ([], st)"
| "addAsks env st ((ctx, price, expiry) # calls) =
     (case AddAsk env ctx st price expiry of
        ((Some askID, code, None), st', msgs) \<Rightarrow>
          (case addAsks env st' calls of
             None \<Rightarrow> None
           | Some (ids, st'') \<Rightarrow> Some (askID # ids, st''))
      | ((None, code, None), st', msgs) \<Rightarrow> None
      | ((ret, code, Some err), st', msgs) \<Rightarrow> None)"

subsection \<open>Concrete contexts and states for the examples\<close>

text \<open>
  An environment whose verifier accepts every request and whose serializer writes the
  number of bytes it is given as one byte (enough to tell nil from an ask); a context
  whose gas meter accepts and whose sends return exit code 0; one whose gas meter
  refuses; one whose send to the storage market returns exit code 1; one whose send
  itself fails.
\<close>

definition test_env :: Env where
  "test_env =
     \<lparr>ErrInsufficientGas = 36, StorageMarketAddress = ''storage-market'',
      PoStChallengeSeedLen = 32,
      VerifyPoST = (\<lambda>req. (True, None)),
      RangeValues = (\<lambda>m. []),
      DumpObject = (\<lambda>ask. (case ask of None \<Rightarrow> [246] | Some a \<Rightarrow> [163, word_of_int (ID a)], None))\<rparr>"

definition ctx_at :: "Address \<Rightarrow> BlockHeight \<Rightarrow> VMContext" where
  "ctx_at sender h =
     \<lparr>From = sender, BlockHeight = h, Charge = (\<lambda>cost. None), Send = (\<lambda>msg. ([], 0, None))\<rparr>"

definition ctx_no_gas :: "Address \<Rightarrow> BlockHeight \<Rightarrow> VMContext" where
  "ctx_no_gas sender h =
     \<lparr>From = sender, BlockHeight = h,
      Charge = (\<lambda>cost. Some (OtherError ''gas cost exceeds gas limit'')),
      Send = (\<lambda>msg. ([], 0, None))\<rparr>"

definition ctx_market_rejects :: "Address \<Rightarrow> BlockHeight \<Rightarrow> VMContext" where
  "ctx_market_rejects sender h =
     \<lparr>From = sender, BlockHeight = h, Charge = (\<lambda>cost. None), Send = (\<lambda>msg. ([], 1, None))\<rparr>"

definition ctx_send_fails :: "Address \<Rightarrow> BlockHeight \<Rightarrow> VMContext" where
  "ctx_send_fails sender h =
     \<lparr>From = sender, BlockHeight = h, Charge = (\<lambda>cost. None),
      Send = (\<lambda>msg. ([], 1, Some (FaultError ''send failed'')))\<rparr>"

definition miner0 :: State where
  "miner0 = NewState ''owner'' [] 10 ''peer'' 0"

definition zeros :: "nat \<Rightarrow> byte list" where
  "zeros n = replicate n 0"

definition comms0 :: Commitments where
  "comms0 = \<lparr>CommD = zeros 32, CommR = zeros 32, CommRStar = zeros 32\<rparr>"

text \<open>The miner after the commit of sector 1 at height 1000 (scenario S3 of the spec).\<close>

definition miner1 :: State where
  "miner1 = miner0\<lparr>SectorCommitments := [''1'' \<mapsto> comms0], LastUsedSectorID := 1,
     ProvingPeriodStart := Some 1000, Power := 1\<rparr>"

definition updatePower_msg :: "Env \<Rightarrow> SentMessage" where
  "updatePower_msg env =
     \<lparr>To = StorageMarketAddress env, Method = ''updatePower'', Value = None, Params = [1]\<rparr>"

text \<open>The miner with two asks stored (ids 0 and 1, expiring at 110 and at 100).\<close>

definition miner_asks :: State where
  "miner_asks = miner0\<lparr>NextAskID := 2,
     Asks := [\<lparr>Price = 5, Expiry = 110, ID = 0\<rparr>, \<lparr>Price = 7, Expiry = 100, ID = 1\<rparr>]\<rparr>"

text \<open>
  For the lemmas about \<open>CommitSector\<close>: the state that the callback has built when it
  reaches the send, written as one record update.
\<close>

definition committed ::
  "VMContext \<Rightarrow> State \<Rightarrow> 64 word \<Rightarrow> byte list \<Rightarrow> byte list \<Rightarrow> byte list \<Rightarrow> State" where
  "committed ctx st sectorID commD commR commRStar =
     st\<lparr>ProvingPeriodStart :=
          (if Power st = 0 then Some (BlockHeight ctx) else ProvingPeriodStart st),
        Power := Power st + 1,
        LastUsedSectorID := sectorID,
        SectorCommitments := (SectorCommitments st)(FormatUint sectorID \<mapsto>
          \<lparr>CommD = commD, CommR = commR, CommRStar = commRStar\<rparr>)\<rparr>"

section \<open>Properties\<close>

subsection \<open>Facts about the helpers\<close>

lemma Errors_simps:
  "Errors ErrCallerUnauthorized = Some (CodedRevertError 37 ''not authorized to call the method'')"
  "Errors ErrSectorCommitted = Some (CodedRevertError 35 ''sector already committed'')"
  "Errors ErrStoragemarketCallFailed = Some (CodedRevertError 36 ''call to StorageMarket failed'')"
  "Errors ErrInvalidPoSt = Some (CodedRevertError 39 ''PoSt proof did not validate'')"
  by (simp_all add: Errors_def ErrPublicKeyTooBig_def ErrInvalidSector_def ErrSectorCommitted_def
      ErrStoragemarketCallFailed_def ErrCallerUnauthorized_def ErrInsufficientPledge_def
      ErrInvalidPoSt_def)

lemma copy_same_length: "length src = n \<Longrightarrow> copy (replicate n z) src = src"
  by (simp add: copy_def)

lemma filterAsks_filter: "filterAsks h asks acc = acc @ filter (\<lambda>a. h < Expiry a) asks"
  by (induction asks arbitrary: acc) (simp_all add: LessThan_def)

lemma findAsk_find: "findAsk askid asks = find (\<lambda>a. ID a = askid) asks"
  by (induction asks) simp_all

lemma unat_Uint64: "IsUint64 x \<Longrightarrow> NewBlockHeight (Uint64 x) = nat x"
  unfolding IsUint64_def NewBlockHeight_def Uint64_def
  by (simp add: unsigned_of_int take_bit_int_eq_self)

lemma ProvingPeriodBlocks_eq: "ProvingPeriodBlocks = 20000"
  by (simp add: ProvingPeriodBlocks_def NewBlockHeight_def)

lemma PoStRequest_192:
  "length proof = PoStProofLength \<Longrightarrow> PoStRequest env st proof =
     \<lparr>ChallengeSeed = replicate (PoStChallengeSeedLen env) 0,
      CommRs = map CommR (RangeValues env (SectorCommitments st)), Faults = [], Proof = proof\<rparr>"
  by (simp add: PoStRequest_def copy_same_length)

lemma FormatUint_1: "FormatUint 1 = ''1''"
  by (simp add: FormatUint_def decimal.simps digit_def)

lemma FormatUint_2: "FormatUint 2 = ''2''"
  by (simp add: FormatUint_def decimal.simps digit_def)

subsection \<open>What a call of CommitSector and of AddAsk returns\<close>

text \<open>
  A call that is charged, has commitments of the right size, comes from the owner and
  names a sector that is not committed reaches the send; what it returns depends on
  the send alone.
\<close>

lemma CommitSector_checked:
  assumes "Charge ctx 100 = None"
    and "length commD = CommitmentBytesLen" "length commR = CommitmentBytesLen"
    and "length commRStar = CommitmentBytesLen"
    and "From ctx = Owner st"
    and "SectorCommitments st (FormatUint sectorID) = None"
  shows "CommitSector env ctx st sectorID commD commR commRStar proof =
     (case Send ctx (updatePower_msg env) of
        (out, ret, Some err) \<Rightarrow> ((CodeError err, Some err), st, [updatePower_msg env])
      | (out, ret, None) \<Rightarrow>
          if ret \<noteq> 0
          then ((36, Errors ErrStoragemarketCallFailed), st, [updatePower_msg env])
          else ((0, None), committed ctx st sectorID commD commR commRStar,
                [updatePower_msg env]))"
  using assms
  by (auto simp: CommitSector_def CommitSector_callback_def WithState_def Let_def
      copy_same_length updatePower_msg_def committed_def Errors_simps
      split: prod.splits option.splits)

text \<open>Only such a call sends anything, and only such a call can succeed.\<close>

lemma CommitSector_sends:
  assumes "snd (snd (CommitSector env ctx st sectorID commD commR commRStar proof)) \<noteq> []"
  shows "Charge ctx 100 = None \<and> length commD = CommitmentBytesLen
    \<and> length commR = CommitmentBytesLen \<and> length commRStar = CommitmentBytesLen
    \<and> From ctx = Owner st \<and> SectorCommitments st (FormatUint sectorID) = None"
  using assms
  by (auto simp: CommitSector_def CommitSector_callback_def WithState_def Let_def
      Errors_simps split: prod.splits option.splits if_splits)

lemma CommitSector_success:
  assumes "CommitSector env ctx st sectorID commD commR commRStar proof = ((code, None), st', msgs)"
  shows "Charge ctx 100 = None \<and> length commD = CommitmentBytesLen
    \<and> length commR = CommitmentBytesLen \<and> length commRStar = CommitmentBytesLen
    \<and> From ctx = Owner st \<and> SectorCommitments st (FormatUint sectorID) = None
    \<and> code = 0 \<and> st' = committed ctx st sectorID commD commR commRStar
    \<and> msgs = [updatePower_msg env]"
  using assms
  by (auto simp: CommitSector_def CommitSector_callback_def WithState_def Let_def
      copy_same_length updatePower_msg_def committed_def Errors_simps
      split: prod.splits option.splits if_splits)

lemma commit_sector_1:
  "CommitSector test_env (ctx_at ''owner'' 1000) miner0 1 (zeros 32) (zeros 32) (zeros 32) []
     = ((0, None), miner1, [updatePower_msg test_env])"
  by (simp add: CommitSector_checked ctx_at_def miner0_def NewState_def zeros_def
      CommitmentBytesLen_def committed_def miner1_def comms0_def FormatUint_1)

lemma AddAsk_success:
  assumes "AddAsk env ctx st price expiry = ((ret, code, None), st', msgs)"
  shows "Charge ctx 100 = None \<and> From ctx = Owner st \<and> IsUint64 expiry
    \<and> ret = Some (NextAskID st) \<and> code = 0 \<and> msgs = []
    \<and> st' = st\<lparr>NextAskID := NextAskID st + 1,
        Asks := filter (\<lambda>a. BlockHeight ctx < Expiry a) (Asks st) @
          [\<lparr>Price = price, Expiry = BlockHeight ctx + nat expiry, ID = NextAskID st\<rparr>]\<rparr>"
  using assms
  by (auto simp: AddAsk_def AddAsk_callback_def WithState_def Let_def Errors_simps
      filterAsks_filter unat_Uint64 Add_def split: option.splits if_splits)

lemma AddAsk_owner:
  assumes "Charge ctx 100 = None" "From ctx = Owner st" "IsUint64 expiry"
  shows "AddAsk env ctx st price expiry =
    ((Some (NextAskID st), 0, None),
     st\<lparr>NextAskID := NextAskID st + 1,
        Asks := filter (\<lambda>a. BlockHeight ctx < Expiry a) (Asks st) @
          [\<lparr>Price = price, Expiry = BlockHeight ctx + nat expiry, ID = NextAskID st\<rparr>]\<rparr>, [])"
  using assms
  by (simp add: AddAsk_def AddAsk_callback_def WithState_def Let_def filterAsks_filter
      unat_Uint64 Add_def)

subsection \<open>Size checks\<close>

text \<open>
  Claim C4. A \<open>commitSector\<close> call with a commitment that is not 32 bytes long, and a
  \<open>submitPoSt\<close> call with a proof that is not 192 bytes long, fail with a revert error,
  change no state and send nothing; the claim gives them the generic revert code 1.
  The code returns the literal exit code 0 next to the revert error: here for a 31-byte
  \<open>commD\<close> sent by the owner to the fresh miner, and for a 191-byte proof sent by the
  owner after sector 1 was committed. Every other revert of the file goes through
  \<open>errors.CodeError\<close> or returns 1 itself.
\<close>

theorem C4_size_checks_return_zero:
  "CommitSector test_env (ctx_at ''owner'' 1000) miner0 2 (zeros 31) (zeros 32) (zeros 32) []
     = ((0, Some (RevertError ''invalid sized commD'')), miner0, [])
   \<and> SubmitPoSt test_env (ctx_at ''owner'' 1000) miner1 (zeros 191)
     = Some ((0, Some (RevertError ''invalid sized proof'')), miner1, [])"
  by (simp add: CommitSector_def SubmitPoSt_def ctx_at_def zeros_def CommitmentBytesLen_def
      PoStProofLength_def)

subsection \<open>The proving period\<close>

text \<open>
  As claim C1 is worded, every owner-sent \<open>submitPoSt\<close> with a 192-byte proof that the
  verifier accepts succeeds when the height is within the period. The gas prelude
  comes first in the code: with sector 1 committed at height 1000, the owner's call at
  height 5000 with a 192-byte proof that the verifier accepts, on a context whose gas
  meter refuses the charge, returns the insufficient-gas revert and leaves the proving
  period where it was.
\<close>

theorem C1_counterexample:
  "ProvingPeriodStart miner1 = Some 1000
   \<and> From (ctx_no_gas ''owner'' 5000) = Owner miner1
   \<and> length (zeros 192) = 192
   \<and> VerifyPoST test_env (PoStRequest test_env miner1 (zeros 192)) = (True, None)
   \<and> BlockHeight (ctx_no_gas ''owner'' 5000) \<le> 1000 + ProvingPeriodBlocks
   \<and> SubmitPoSt test_env (ctx_no_gas ''owner'' 5000) miner1 (zeros 192)
       = Some ((36, Some (RevertErrorWrap (OtherError ''gas cost exceeds gas limit'')
                 ''Insufficient gas'')), miner1, [])"
  by (simp add: SubmitPoSt_def ctx_no_gas_def miner1_def miner0_def NewState_def zeros_def
      test_env_def ProvingPeriodBlocks_eq)

text \<open>
  Claim C1, for a call whose gas charge is accepted. On a state whose
  \<open>ProvingPeriodStart\<close> is \<open>S\<close>, a \<open>submitPoSt\<close> sent by the owner with a 192-byte proof
  that the verifier accepts does this: at a height of at most \<open>S + ProvingPeriodBlocks\<close>
  it succeeds with exit code 0, sets \<open>ProvingPeriodStart\<close> to exactly
  \<open>S + ProvingPeriodBlocks\<close> and \<open>LastPoSt\<close> to the height, and changes nothing else; at
  a greater height it returns the revert error "submitted PoSt late" with exit code 1
  and the state is the one before the call.
\<close>

theorem C1_submitPoSt_window:
  assumes "Charge ctx 100 = None"
    and "From ctx = Owner st"
    and "length proof = PoStProofLength"
    and "VerifyPoST env (PoStRequest env st proof) = (True, None)"
    and "ProvingPeriodStart st = Some S"
  shows "(BlockHeight ctx \<le> S + ProvingPeriodBlocks \<longrightarrow>
           SubmitPoSt env ctx st proof =
             Some ((0, None),
                   st\<lparr>ProvingPeriodStart := Some (S + ProvingPeriodBlocks),
                      LastPoSt := Some (BlockHeight ctx)\<rparr>, []))
       \<and> (S + ProvingPeriodBlocks < BlockHeight ctx \<longrightarrow>
           SubmitPoSt env ctx st proof =
             Some ((1, Some (RevertError ''submitted PoSt late, need to pay a fee'')), st, []))"
  using assms
  by (simp add: SubmitPoSt_def SubmitPoSt_callback_def WithState_def Let_def Add_def
      LessEqual_def)

text \<open>
  Scenarios S3 and S5 of the spec: after the commit at height 1000, a PoSt at height
  5000 moves the period start to 21000, and a PoSt at height 21001 is late.
\<close>

theorem C1_witness:
  "SubmitPoSt test_env (ctx_at ''owner'' 5000) miner1 (zeros 192) =
     Some ((0, None), miner1\<lparr>ProvingPeriodStart := Some 21000, LastPoSt := Some 5000\<rparr>, [])
   \<and> SubmitPoSt test_env (ctx_at ''owner'' 21001) miner1 (zeros 192) =
     Some ((1, Some (RevertError ''submitted PoSt late, need to pay a fee'')), miner1, [])"
  using C1_submitPoSt_window [of "ctx_at ''owner'' 5000" miner1 "zeros 192" test_env 1000]
    C1_submitPoSt_window [of "ctx_at ''owner'' 21001" miner1 "zeros 192" test_env 1000]
  by (simp add: ctx_at_def miner1_def miner0_def NewState_def zeros_def test_env_def
      ProvingPeriodBlocks_eq PoStProofLength_def)

subsection \<open>Committing a sector\<close>

text \<open>
  Claim C2. A \<open>commitSector\<close> call that succeeds (it returns no error) increments
  \<open>Power\<close> by 1, records the three commitments under the sector id (the decimal string
  of the id is the key of the map), sets \<open>LastUsedSectorID\<close> to the sector id and, when
  \<open>Power\<close> was 0 before the call, sets \<open>ProvingPeriodStart\<close> to the current height;
  when \<open>Power\<close> was not 0 the period start stays. A call succeeds only when it comes
  from the owner, its commitments are 32 bytes long and the sector id is not yet in
  \<open>SectorCommitments\<close> (lemma \<open>CommitSector_success\<close>), so success is the only
  hypothesis.
\<close>

theorem C2_commitSector_effect:
  assumes "CommitSector env ctx st sectorID commD commR commRStar proof = ((code, None), st', msgs)"
  shows "Power st' = Power st + 1
    \<and> SectorCommitments st' = (SectorCommitments st)(FormatUint sectorID \<mapsto>
          \<lparr>CommD = commD, CommR = commR, CommRStar = commRStar\<rparr>)
    \<and> LastUsedSectorID st' = sectorID
    \<and> (Power st = 0 \<longrightarrow> ProvingPeriodStart st' = Some (BlockHeight ctx))
    \<and> (Power st \<noteq> 0 \<longrightarrow> ProvingPeriodStart st' = ProvingPeriodStart st)"
  using CommitSector_success [OF assms] by (simp add: committed_def)

text \<open>
  Scenario S3 of the spec: the owner commits sector 1 at height 1000 on the fresh
  miner; power becomes 1, the period starts at 1000, the entry is stored under "1".
\<close>

theorem C2_witness:
  "CommitSector test_env (ctx_at ''owner'' 1000) miner0 1 (zeros 32) (zeros 32) (zeros 32) []
     = ((0, None), miner1, [updatePower_msg test_env])
   \<and> Power miner1 = Power miner0 + 1
   \<and> SectorCommitments miner1 = (SectorCommitments miner0)(''1'' \<mapsto> comms0)
   \<and> LastUsedSectorID miner1 = 1
   \<and> Power miner0 = 0 \<and> ProvingPeriodStart miner1 = Some 1000"
  using C2_commitSector_effect [OF commit_sector_1] commit_sector_1
  by (simp add: miner0_def NewState_def ctx_at_def FormatUint_1 comms0_def zeros_def)

subsection \<open>Authorization\<close>

text \<open>
  As claim C3 is worded, every call of a mutating method by a sender other than the
  owner returns exit code 37. \<open>CommitSector\<close> and \<open>SubmitPoSt\<close> check the size of
  their arguments before they load the state and look at the sender: a
  \<open>commitSector\<close> with a 31-byte \<open>commD\<close> from a sender that is not the owner does not
  return 37.
\<close>

theorem C3_counterexample:
  "From (ctx_at ''stranger'' 1000) \<noteq> Owner miner0
   \<and> fst (fst (CommitSector test_env (ctx_at ''stranger'' 1000) miner0 2
                  (zeros 31) (zeros 32) (zeros 32) [])) \<noteq> 37"
  by (simp add: CommitSector_def ctx_at_def miner0_def NewState_def zeros_def
      CommitmentBytesLen_def)

text \<open>
  Claim C3, for a call whose gas charge is accepted and, for \<open>commitSector\<close> and
  \<open>submitPoSt\<close>, whose arguments pass the size checks (32-byte commitments, 192-byte
  proof). Such a call of \<open>addAsk\<close>, \<open>updatePeerID\<close>, \<open>commitSector\<close> or \<open>submitPoSt\<close>
  by a sender other than \<open>Owner\<close> returns exit code 37 with the error
  \<open>ErrCallerUnauthorized\<close>, leaves the whole state as it was and sends nothing.
\<close>

theorem C3_unauthorized:
  assumes "Charge ctx 100 = None" and "From ctx \<noteq> Owner st"
  shows "AddAsk env ctx st price expiry =
           ((None, 37, Some (CodedRevertError 37 ''not authorized to call the method'')), st, [])
     \<and> UpdatePeerID env ctx st pid =
           ((37, Some (CodedRevertError 37 ''not authorized to call the method'')), st, [])
     \<and> (length commD = 32 \<and> length commR = 32 \<and> length commRStar = 32 \<longrightarrow>
         CommitSector env ctx st sectorID commD commR commRStar proof =
           ((37, Some (CodedRevertError 37 ''not authorized to call the method'')), st, []))
     \<and> (length postProof = 192 \<longrightarrow>
         SubmitPoSt env ctx st postProof =
           Some ((37, Some (CodedRevertError 37 ''not authorized to call the method'')), st, []))"
  using assms
  by (simp add: AddAsk_def AddAsk_callback_def UpdatePeerID_def UpdatePeerID_callback_def
      CommitSector_def CommitSector_callback_def SubmitPoSt_def SubmitPoSt_callback_def
      WithState_def Errors_simps CommitmentBytesLen_def PoStProofLength_def)

text \<open>Scenario S2 of the spec, and the same sender on the other three methods.\<close>

theorem C3_witness:
  "AddAsk test_env (ctx_at ''stranger'' 10) miner0 5 100 =
     ((None, 37, Some (CodedRevertError 37 ''not authorized to call the method'')), miner0, [])
   \<and> UpdatePeerID test_env (ctx_at ''stranger'' 10) miner0 ''other-peer'' =
     ((37, Some (CodedRevertError 37 ''not authorized to call the method'')), miner0, [])
   \<and> CommitSector test_env (ctx_at ''stranger'' 10) miner0 1 (zeros 32) (zeros 32) (zeros 32) [] =
     ((37, Some (CodedRevertError 37 ''not authorized to call the method'')), miner0, [])
   \<and> SubmitPoSt test_env (ctx_at ''stranger'' 10) miner0 (zeros 192) =
     Some ((37, Some (CodedRevertError 37 ''not authorized to call the method'')), miner0, [])"
  using C3_unauthorized [of "ctx_at ''stranger'' 10" miner0 test_env 5 100 "''other-peer''"
      "zeros 32" "zeros 32" "zeros 32" 1 "[]" "zeros 192"]
  by (simp add: ctx_at_def miner0_def NewState_def zeros_def)

text \<open>
  As claim C5 is worded, every owner-sent \<open>commitSector\<close> for a sector id that is
  already committed, with 32-byte commitments, returns \<open>ErrSectorCommitted\<close>. The gas
  prelude comes first: with sector 1 committed, the owner's second commit of sector 1
  on a context whose gas meter refuses the charge returns the VM's insufficient-gas
  code (36 in this environment) with the insufficient-gas revert, not code 35.
\<close>

theorem C5_counterexample:
  "SectorCommitments miner1 (FormatUint 1) \<noteq> None
   \<and> From (ctx_no_gas ''owner'' 2000) = Owner miner1
   \<and> length (zeros 32) = 32
   \<and> fst (fst (CommitSector test_env (ctx_no_gas ''owner'' 2000) miner1 1
                  (zeros 32) (zeros 32) (zeros 32) [])) \<noteq> 35
   \<and> snd (fst (CommitSector test_env (ctx_no_gas ''owner'' 2000) miner1 1
                  (zeros 32) (zeros 32) (zeros 32) [])) \<noteq> Errors ErrSectorCommitted"
  by (simp add: CommitSector_def ctx_no_gas_def miner1_def miner0_def NewState_def zeros_def
      test_env_def FormatUint_1 Errors_simps)

text \<open>
  Claim C5, for a call whose gas charge is accepted. When the sector id is already a
  key of \<open>SectorCommitments\<close>, a \<open>commitSector\<close> sent by the owner with that id and
  32-byte commitments returns exit code 35 with the error \<open>ErrSectorCommitted\<close>,
  leaves the state as it was and sends nothing to the storage market.
\<close>

theorem C5_duplicate_sector:
  assumes "Charge ctx 100 = None"
    and "From ctx = Owner st"
    and "length commD = 32" "length commR = 32" "length commRStar = 32"
    and "SectorCommitments st (FormatUint sectorID) \<noteq> None"
  shows "CommitSector env ctx st sectorID commD commR commRStar proof =
     ((35, Some (CodedRevertError 35 ''sector already committed'')), st, [])"
  using assms
  by (simp add: CommitSector_def CommitSector_callback_def WithState_def Errors_simps
      CommitmentBytesLen_def)

text \<open>Scenario S4 of the spec: the second commit of sector 1.\<close>

theorem C5_witness:
  "CommitSector test_env (ctx_at ''owner'' 2000) miner1 1 (zeros 32) (zeros 32) (zeros 32) [] =
     ((35, Some (CodedRevertError 35 ''sector already committed'')), miner1, [])"
  using C5_duplicate_sector [of "ctx_at ''owner'' 2000" miner1 "zeros 32" "zeros 32" "zeros 32" 1
      test_env "[]"]
  by (simp add: ctx_at_def miner1_def miner0_def NewState_def zeros_def FormatUint_1)

subsection \<open>Power and the number of committed sectors\<close>

text \<open>
  Every successful commit adds one to \<open>Power\<close> and one new key to the map, so a state
  whose power is the number of keys keeps that along any sequence of successful calls.
\<close>

lemma commitAll_invariant:
  assumes "commitAll env st calls = Some st'"
    and "finite (dom (SectorCommitments st))"
    and "Power st = int (card (dom (SectorCommitments st)))"
  shows "finite (dom (SectorCommitments st'))
     \<and> Power st' = int (card (dom (SectorCommitments st')))"
  using assms
proof (induction calls arbitrary: st)
  case Nil
  then show ?case by simp
next
  case (Cons call calls)
  obtain ctx sectorID commD commR commRStar "proof" where
    call: "call = (ctx, sectorID, commD, commR, commRStar, proof)"
    by (cases call) auto
  obtain code err st1 msgs where
    r: "CommitSector env ctx st sectorID commD commR commRStar proof = ((code, err), st1, msgs)"
    by (metis prod.exhaust)
  from Cons.prems(1) call r have err: "err = None" and rest: "commitAll env st1 calls = Some st'"
    by (auto split: option.splits)
  from CommitSector_success [OF r [unfolded err]]
  have fresh: "SectorCommitments st (FormatUint sectorID) = None"
    and st1: "st1 = committed ctx st sectorID commD commR commRStar"
    by simp_all
  from fresh have notin: "FormatUint sectorID \<notin> dom (SectorCommitments st)"
    by (simp add: domIff)
  have "finite (dom (SectorCommitments st1))"
    using Cons.prems(2) by (simp add: st1 committed_def)
  moreover have "Power st1 = int (card (dom (SectorCommitments st1)))"
    using Cons.prems(2,3) notin by (simp add: st1 committed_def)
  ultimately show ?case using Cons.IH [OF rest] by blast
qed

text \<open>
  Claim C6. After any sequence of successful \<open>commitSector\<close> calls (any contexts, any
  arguments) starting from the state that \<open>NewState\<close> creates, \<open>Power\<close> equals the
  number of entries of \<open>SectorCommitments\<close>.
\<close>

theorem C6_power_equals_count:
  assumes "commitAll env (NewState owner key pledge pid collateral) calls = Some st"
  shows "Power st = int (card (dom (SectorCommitments st)))"
  using commitAll_invariant [OF assms] by (simp add: NewState_def)

text \<open>The owner commits sector 1 at height 1000 and sector 2 at height 1500.\<close>

theorem C6_witness:
  "commitAll test_env (NewState ''owner'' [] 10 ''peer'' 0)
      [(ctx_at ''owner'' 1000, 1, zeros 32, zeros 32, zeros 32, []),
       (ctx_at ''owner'' 1500, 2, zeros 32, zeros 32, zeros 32, [])]
     = Some (miner1\<lparr>SectorCommitments := [''1'' \<mapsto> comms0, ''2'' \<mapsto> comms0],
                    LastUsedSectorID := 2, Power := 2\<rparr>)
   \<and> Power (miner1\<lparr>SectorCommitments := [''1'' \<mapsto> comms0, ''2'' \<mapsto> comms0],
                    LastUsedSectorID := 2, Power := 2\<rparr>)
     = int (card (dom (SectorCommitments
         (miner1\<lparr>SectorCommitments := [''1'' \<mapsto> comms0, ''2'' \<mapsto> comms0],
                 LastUsedSectorID := 2, Power := 2\<rparr>))))"
proof -
  have run: "commitAll test_env (NewState ''owner'' [] 10 ''peer'' 0)
      [(ctx_at ''owner'' 1000, 1, zeros 32, zeros 32, zeros 32, []),
       (ctx_at ''owner'' 1500, 2, zeros 32, zeros 32, zeros 32, [])]
     = Some (miner1\<lparr>SectorCommitments := [''1'' \<mapsto> comms0, ''2'' \<mapsto> comms0],
                    LastUsedSectorID := 2, Power := 2\<rparr>)"
    by (simp add: CommitSector_checked ctx_at_def miner0_def miner1_def NewState_def zeros_def
        CommitmentBytesLen_def committed_def comms0_def FormatUint_1 FormatUint_2)
  from C6_power_equals_count [OF run] run show ?thesis by simp
qed

subsection \<open>The ask book\<close>

lemma addAsks_ids:
  assumes "addAsks env st calls = Some (ids, st')"
  shows "ids = map (\<lambda>i. NextAskID st + int i) [0..<length calls]
     \<and> NextAskID st' = NextAskID st + int (length calls)"
  using assms
proof (induction calls arbitrary: st ids)
  case Nil
  then show ?case by simp
next
  case (Cons call calls)
  obtain ctx price expiry where call: "call = (ctx, price, expiry)"
    by (cases call) auto
  obtain ret code err st1 msgs where
    r: "AddAsk env ctx st price expiry = ((ret, code, err), st1, msgs)"
    by (metis prod.exhaust)
  from Cons.prems call r obtain ids1 where
    err: "err = None" and rest: "addAsks env st1 calls = Some (ids1, st')"
    and ids: "ids = the ret # ids1" and ret: "ret \<noteq> None"
    by (auto split: option.splits)
  from AddAsk_success [OF r [unfolded err]]
  have ret_eq: "ret = Some (NextAskID st)" and next1: "NextAskID st1 = NextAskID st + 1"
    by simp_all
  from Cons.IH [OF rest]
  have ids1: "ids1 = map (\<lambda>i. NextAskID st1 + int i) [0..<length calls]"
    and last: "NextAskID st' = NextAskID st1 + int (length calls)"
    by simp_all
  have "map (\<lambda>i. NextAskID st + int i) [0..<length (call # calls)]
      = NextAskID st # map (\<lambda>i. NextAskID st + 1 + int i) [0..<length calls]"
    by (simp add: upt_conv_Cons map_Suc_upt [symmetric] del: upt_Suc)
  then show ?case using ids ids1 last next1 ret_eq by simp
qed

text \<open>
  Claim C7. A successful \<open>addAsk\<close> returns the \<open>NextAskID\<close> it finds and leaves
  \<open>NextAskID\<close> greater by exactly 1; and along any sequence of successful \<open>addAsk\<close>
  calls starting from the state that \<open>NewState\<close> creates, the ids returned are
  0, 1, 2, ... in call order, without gap or repeat.
\<close>

theorem C7_ask_ids_sequential:
  "(AddAsk env ctx st price expiry = ((Some askID, code, None), st', msgs) \<longrightarrow>
      askID = NextAskID st \<and> NextAskID st' = NextAskID st + 1)
   \<and> (addAsks env (NewState owner key pledge pid collateral) calls = Some (ids, st'') \<longrightarrow>
      ids = map int [0..<length calls] \<and> NextAskID st'' = int (length calls))"
proof (intro conjI impI)
  assume a: "AddAsk env ctx st price expiry = ((Some askID, code, None), st', msgs)"
  from AddAsk_success [OF a] show "askID = NextAskID st" by simp
  from AddAsk_success [OF a] show "NextAskID st' = NextAskID st + 1" by simp
next
  assume b: "addAsks env (NewState owner key pledge pid collateral) calls = Some (ids, st'')"
  from addAsks_ids [OF b] show "ids = map int [0..<length calls]"
    by (simp add: NewState_def)
  from addAsks_ids [OF b] show "NextAskID st'' = int (length calls)"
    by (simp add: NewState_def)
qed

text \<open>
  Scenario S1 of the spec: the owner adds asks at heights 10, 50 and 200 and gets the
  ids 0, 1 and 2; after the third call only the ask with id 2 is stored.
\<close>

theorem C7_witness:
  "AddAsk test_env (ctx_at ''owner'' 10) (NewState ''owner'' [] 10 ''peer'' 0) 5 100 =
     ((Some 0, 0, None),
      (NewState ''owner'' [] 10 ''peer'' 0)
        \<lparr>NextAskID := 1, Asks := [\<lparr>Price = 5, Expiry = 110, ID = 0\<rparr>]\<rparr>, [])
   \<and> addAsks test_env (NewState ''owner'' [] 10 ''peer'' 0)
       [(ctx_at ''owner'' 10, 5, 100), (ctx_at ''owner'' 50, 7, 50), (ctx_at ''owner'' 200, 9, 10)]
     = Some ([0, 1, 2],
         (NewState ''owner'' [] 10 ''peer'' 0)
           \<lparr>NextAskID := 3, Asks := [\<lparr>Price = 9, Expiry = 210, ID = 2\<rparr>]\<rparr>)"
proof -
  have one: "AddAsk test_env (ctx_at ''owner'' 10) (NewState ''owner'' [] 10 ''peer'' 0) 5 100 =
     ((Some 0, 0, None),
      (NewState ''owner'' [] 10 ''peer'' 0)
        \<lparr>NextAskID := 1, Asks := [\<lparr>Price = 5, Expiry = 110, ID = 0\<rparr>]\<rparr>, [])"
    by (simp add: AddAsk_owner ctx_at_def NewState_def IsUint64_def)
  have run: "addAsks test_env (NewState ''owner'' [] 10 ''peer'' 0)
       [(ctx_at ''owner'' 10, 5, 100), (ctx_at ''owner'' 50, 7, 50), (ctx_at ''owner'' 200, 9, 10)]
     = Some ([0, 1, 2],
         (NewState ''owner'' [] 10 ''peer'' 0)
           \<lparr>NextAskID := 3, Asks := [\<lparr>Price = 9, Expiry = 210, ID = 2\<rparr>]\<rparr>)"
    by (simp add: AddAsk_owner ctx_at_def NewState_def IsUint64_def)
  from C7_ask_ids_sequential [of test_env "ctx_at ''owner'' 10"
      "NewState ''owner'' [] 10 ''peer'' 0" 5 100 0 0
      "(NewState ''owner'' [] 10 ''peer'' 0)
        \<lparr>NextAskID := 1, Asks := [\<lparr>Price = 5, Expiry = 110, ID = 0\<rparr>]\<rparr>" "[]"
      "''owner''" "[]" 10 "''peer''" 0
      "[(ctx_at ''owner'' 10, 5, 100), (ctx_at ''owner'' 50, 7, 50), (ctx_at ''owner'' 200, 9, 10)]"
      "[0, 1, 2]"
      "(NewState ''owner'' [] 10 ''peer'' 0)
           \<lparr>NextAskID := 3, Asks := [\<lparr>Price = 9, Expiry = 210, ID = 2\<rparr>]\<rparr>"]
    one run
  show ?thesis by simp
qed

text \<open>
  As claim C8 is worded, after a successful \<open>addAsk\<close> at height \<open>H\<close> every stored ask
  has an expiry greater than \<open>H\<close>. The new ask is appended after the pruning and its
  lifetime is not checked to be positive: the owner's \<open>addAsk\<close> with lifetime 0 at
  height 10 succeeds (0 fits in 64 bits) and stores an ask whose expiry is 10.
\<close>

theorem C8_counterexample:
  "IsUint64 0
   \<and> AddAsk test_env (ctx_at ''owner'' 10) miner0 5 0 =
       ((Some 0, 0, None),
        miner0\<lparr>NextAskID := 1, Asks := [\<lparr>Price = 5, Expiry = 10, ID = 0\<rparr>]\<rparr>, [])
   \<and> \<not> BlockHeight (ctx_at ''owner'' 10) < Expiry \<lparr>Price = 5, Expiry = 10, ID = 0\<rparr>"
  by (simp add: AddAsk_def AddAsk_callback_def WithState_def ctx_at_def miner0_def NewState_def
      IsUint64_def Uint64_def NewBlockHeight_def Add_def)

text \<open>
  Claim C8, with the new ask set apart. After a successful \<open>addAsk(price, expiry)\<close> at
  height \<open>H\<close> the stored asks are the asks stored before whose expiry is greater than
  \<open>H\<close> (an ask expiring at \<open>H\<close> is removed), in their old order, followed by the new
  ask, whose expiry is \<open>H + expiry\<close> and whose id is the old \<open>NextAskID\<close>. So every
  stored ask but the last has an expiry greater than \<open>H\<close>, and the last has one too when
  the lifetime is positive.
\<close>

theorem C8_addAsk_prunes_and_appends:
  assumes "AddAsk env ctx st price expiry = ((ret, code, None), st', msgs)"
  shows "Asks st' = filter (\<lambda>a. BlockHeight ctx < Expiry a) (Asks st) @
            [\<lparr>Price = price, Expiry = BlockHeight ctx + nat expiry, ID = NextAskID st\<rparr>]
    \<and> (\<forall>a \<in> set (butlast (Asks st')). BlockHeight ctx < Expiry a)
    \<and> (0 < expiry \<longrightarrow> (\<forall>a \<in> set (Asks st'). BlockHeight ctx < Expiry a))"
  using AddAsk_success [OF assms] by auto

text \<open>
  At height 100 the ask expiring at 110 stays and the ask expiring at 100 goes; the
  new ask with lifetime 10 comes last.
\<close>

theorem C8_witness:
  "AddAsk test_env (ctx_at ''owner'' 100) miner_asks 9 10 =
     ((Some 2, 0, None),
      miner_asks\<lparr>NextAskID := 3,
        Asks := [\<lparr>Price = 5, Expiry = 110, ID = 0\<rparr>, \<lparr>Price = 9, Expiry = 110, ID = 2\<rparr>]\<rparr>, [])
   \<and> Asks (miner_asks\<lparr>NextAskID := 3,
        Asks := [\<lparr>Price = 5, Expiry = 110, ID = 0\<rparr>, \<lparr>Price = 9, Expiry = 110, ID = 2\<rparr>]\<rparr>)
     = filter (\<lambda>a. 100 < Expiry a) (Asks miner_asks) @ [\<lparr>Price = 9, Expiry = 110, ID = 2\<rparr>]"
proof -
  have run: "AddAsk test_env (ctx_at ''owner'' 100) miner_asks 9 10 =
     ((Some 2, 0, None),
      miner_asks\<lparr>NextAskID := 3,
        Asks := [\<lparr>Price = 5, Expiry = 110, ID = 0\<rparr>, \<lparr>Price = 9, Expiry = 110, ID = 2\<rparr>]\<rparr>, [])"
    by (simp add: AddAsk_owner ctx_at_def miner_asks_def miner0_def NewState_def IsUint64_def)
  from C8_addAsk_prunes_and_appends [OF run] run show ?thesis
    by (simp add: ctx_at_def miner_asks_def miner0_def NewState_def)
qed

subsection \<open>The call to the storage market\<close>

text \<open>
  Claim C9. Take a \<open>commitSector\<close> call sent by the owner, with 32-byte commitments and
  a sector id that is not yet committed, that gets as far as the send of \<open>updatePower\<close>
  to the storage market. If the send returns no error and an exit code other than 0,
  the call returns exit code 36 with \<open>ErrStoragemarketCallFailed\<close>; if the send returns
  an error, the call returns that error. In both cases the state in storage is the
  state before the call: \<open>Power\<close>, \<open>SectorCommitments\<close>, \<open>LastUsedSectorID\<close> and
  \<open>ProvingPeriodStart\<close> are unchanged.
\<close>

theorem C9_market_failure_rolls_back:
  assumes "From ctx = Owner st"
    and "length commD = 32" "length commR = 32" "length commRStar = 32"
    and "SectorCommitments st (FormatUint sectorID) = None"
    and "snd (snd (CommitSector env ctx st sectorID commD commR commRStar proof))
           = [updatePower_msg env]"
  shows "(Send ctx (updatePower_msg env) = (out, ret, None) \<and> ret \<noteq> 0 \<longrightarrow>
            CommitSector env ctx st sectorID commD commR commRStar proof =
              ((36, Some (CodedRevertError 36 ''call to StorageMarket failed'')), st,
               [updatePower_msg env]))
       \<and> (Send ctx (updatePower_msg env) = (out, ret, Some err) \<longrightarrow>
            CommitSector env ctx st sectorID commD commR commRStar proof =
              ((CodeError err, Some err), st, [updatePower_msg env]))"
proof -
  from assms(6) have "snd (snd (CommitSector env ctx st sectorID commD commR commRStar proof)) \<noteq> []"
    by simp
  from CommitSector_sends [OF this] have charged: "Charge ctx 100 = None" by simp
  show ?thesis
    using assms(1-5) charged
    by (simp add: CommitSector_checked CommitmentBytesLen_def Errors_simps)
qed

text \<open>
  The owner commits sector 1 on the fresh miner: once with a storage market that
  returns exit code 1, once with a send that fails. The miner stays as it was.
\<close>

theorem C9_witness:
  "CommitSector test_env (ctx_market_rejects ''owner'' 1000) miner0 1 (zeros 32) (zeros 32) (zeros 32) []
     = ((36, Some (CodedRevertError 36 ''call to StorageMarket failed'')), miner0,
        [updatePower_msg test_env])
   \<and> CommitSector test_env (ctx_send_fails ''owner'' 1000) miner0 1 (zeros 32) (zeros 32) (zeros 32) []
     = ((1, Some (FaultError ''send failed'')), miner0, [updatePower_msg test_env])"
proof -
  have s1: "snd (snd (CommitSector test_env (ctx_market_rejects ''owner'' 1000) miner0 1
      (zeros 32) (zeros 32) (zeros 32) [])) = [updatePower_msg test_env]"
    by (simp add: CommitSector_checked ctx_market_rejects_def miner0_def NewState_def zeros_def
        CommitmentBytesLen_def)
  have s2: "snd (snd (CommitSector test_env (ctx_send_fails ''owner'' 1000) miner0 1
      (zeros 32) (zeros 32) (zeros 32) [])) = [updatePower_msg test_env]"
    by (simp add: CommitSector_checked ctx_send_fails_def miner0_def NewState_def zeros_def
        CommitmentBytesLen_def)
  show ?thesis
    using C9_market_failure_rolls_back [of "ctx_market_rejects ''owner'' 1000" miner0 "zeros 32"
        "zeros 32" "zeros 32" 1 test_env "[]" "[]" 1, OF _ _ _ _ _ s1]
      C9_market_failure_rolls_back [of "ctx_send_fails ''owner'' 1000" miner0 "zeros 32"
        "zeros 32" "zeros 32" 1 test_env "[]" "[]" 1 "FaultError ''send failed''",
        OF _ _ _ _ _ s2]
    by (simp add: ctx_market_rejects_def ctx_send_fails_def miner0_def NewState_def zeros_def)
qed

subsection \<open>Reading an ask\<close>

text \<open>
  As claim C10 is worded, every call of \<open>getAsk\<close> returns the serialization of the
  first matching ask. The gas prelude comes first: with asks 0 and 1 stored, a call for
  id 1 on a context whose gas meter refuses the charge returns no bytes and the
  insufficient-gas revert.
\<close>

theorem C10_counterexample:
  "DumpObject test_env (find (\<lambda>a. ID a = 1) (Asks miner_asks)) = ([163, 1], None)
   \<and> fst (fst (GetAsk test_env (ctx_no_gas ''client'' 50) miner_asks 1)) \<noteq> Some [163, 1]
   \<and> snd (snd (fst (GetAsk test_env (ctx_no_gas ''client'' 50) miner_asks 1))) \<noteq> None"
  by (simp add: GetAsk_def ctx_no_gas_def miner_asks_def miner0_def NewState_def test_env_def)

text \<open>
  Claim C10, for a call whose gas charge is accepted. \<open>getAsk(id)\<close> never changes the
  state (charged or not); a charged call, from any sender, returns with exit code 0
  the bytes that the serializer gives for the first stored ask, in list order, whose
  \<open>ID\<close> equals \<open>id\<close>, and the bytes it gives for nil when no stored ask has that id
  (\<open>find\<close> is \<open>None\<close> then).
\<close>

theorem C10_getAsk_first_match:
  "fst (snd (GetAsk env ctx st askid)) = st
   \<and> (Charge ctx 100 = None
        \<and> DumpObject env (find (\<lambda>a. ID a = askid) (Asks st)) = (bytes, None) \<longrightarrow>
      GetAsk env ctx st askid = ((Some bytes, 0, None), st, []))"
  by (auto simp: GetAsk_def GetAsk_callback_def WithState_def Let_def findAsk_find
      split: option.splits prod.splits)

text \<open>With asks 0 and 1 stored: the ask with id 1 is found, no ask has id 7.\<close>

theorem C10_witness:
  "GetAsk test_env (ctx_at ''client'' 50) miner_asks 1 = ((Some [163, 1], 0, None), miner_asks, [])
   \<and> GetAsk test_env (ctx_at ''client'' 50) miner_asks 7 = ((Some [246], 0, None), miner_asks, [])"
  using C10_getAsk_first_match [of test_env "ctx_at ''client'' 50" miner_asks 1 "[163, 1]"]
    C10_getAsk_first_match [of test_env "ctx_at ''client'' 50" miner_asks 7 "[246]"]
  by (simp add: ctx_at_def miner_asks_def miner0_def NewState_def test_env_def)

end
